theory Spec2Isabelle
  imports Complex_Main
begin

section \<open>Tensors and the torch operations the modules call\<close>

text \<open>
  The modules of \<^verbatim>\<open>kindle/modules/conv.py\<close> work on image batches: tensors of four
  dimensions (batch, channel, row, column). A tensor is modelled by its four sizes and the
  function that reads the element at an index; what that function returns outside the
  sizes is no part of the tensor.
\<close>

record 'a tensor =
  batch :: nat
  chans :: nat
  height :: nat
  width :: nat
  elem :: "nat \<Rightarrow> nat \<Rightarrow> nat \<Rightarrow> nat \<Rightarrow> 'a"

definition shape :: "'a tensor \<Rightarrow> nat \<times> nat \<times> nat \<times> nat" where
  "shape x = (batch x, chans x, height x, width x)"

text \<open>
  torch reports a failed operation (here: sizes that do not fit) by raising a
  \<^verbatim>\<open>RuntimeError\<close>, a constructor that rejects its arguments a \<^verbatim>\<open>ValueError\<close>.
  \<open>StateError\<close> and \<open>ComputationError\<close> are failures the specification names: a call
  that the state of the detection head does not allow, and a transform that fails during a
  forward pass.
\<close>

datatype error = RuntimeError | ValueError | StateError | ComputationError

type_synonym 'a result = "error + 'a"

text \<open>
  A torch module, seen through its call: a tensor in, a tensor out or an exception. The
  state a module keeps for itself (the running statistics that a batch normalisation
  updates while training) is not part of the value a call returns and is not modelled.
\<close>

type_synonym 'a module = "'a tensor \<Rightarrow> 'a tensor result"

text \<open>
  \<^verbatim>\<open>g(f(x))\<close> in Python evaluates \<^verbatim>\<open>f(x)\<close> first; an exception raised there
  leaves the expression, and \<^verbatim>\<open>g\<close> is never called.
\<close>

definition and_then :: "'a result \<Rightarrow> ('a \<Rightarrow> 'b result) \<Rightarrow> 'b result" where
  "and_then r f = (case r of Inl e \<Rightarrow> Inl e | Inr v \<Rightarrow> f v)"

text \<open>
  The length of the Python slice \<^verbatim>\<open>start::2\<close> of a dimension of size \<open>n\<close>, for
  \<open>start\<close> 0 or 1: the indices \<open>start, start + 2, ...\<close> below \<open>n\<close>.
\<close>

definition slice_len :: "nat \<Rightarrow> nat \<Rightarrow> nat" where
  "slice_len start n = (n - start + 1) div 2"

text \<open>
  \<^verbatim>\<open>x[..., r::2, c::2]\<close>: every second row from row \<open>r\<close> and every second column
  from column \<open>c\<close>; the ellipsis keeps the batch and channel dimensions whole.
\<close>

definition slice2 :: "nat \<Rightarrow> nat \<Rightarrow> 'a tensor \<Rightarrow> 'a tensor" where
  "slice2 r c x =
     \<lparr>batch = batch x, chans = chans x,
      height = slice_len r (height x), width = slice_len c (width x),
      elem = (\<lambda>b k i j. elem x b k (r + 2 * i) (c + 2 * j))\<rparr>"

text \<open>
  \<^verbatim>\<open>torch.cat(ts, 1)\<close>: the tensors one after the other along the channel dimension.
  Channel \<open>k\<close> of the result is channel \<open>k\<close> of the first tensor that still has one, counting
  on from the tensors before it.
\<close>

fun cat_at :: "'a tensor \<Rightarrow> 'a tensor list \<Rightarrow> nat \<Rightarrow> nat \<Rightarrow> nat \<Rightarrow> nat \<Rightarrow> 'a" where
  "cat_at t [] b k i j = elem t b k i j"
| "cat_at t (u # us) b k i j =
     (if k < chans t then elem t b k i j else cat_at u us b (k - chans t) i j)"

text \<open>
  torch refuses an empty list, and tensors whose sizes differ in a dimension other than the
  one concatenated.
\<close>

definition torch_cat_1 :: "'a tensor list \<Rightarrow> 'a tensor result" where
  "torch_cat_1 ts =
     (case ts of
        [] \<Rightarrow> Inl RuntimeError
      | t # rest \<Rightarrow>
          if list_all (\<lambda>u. batch u = batch t \<and> height u = height t \<and> width u = width t) rest
          then Inr \<lparr>batch = batch t, chans = sum_list (map chans ts),
                    height = height t, width = width t, elem = cat_at t rest\<rparr>
          else Inl RuntimeError)"

section \<open>Conv\<close>

text \<open>
  What \<^verbatim>\<open>Conv.__init__\<close> calls and this file does not define: torch's
  \<^verbatim>\<open>nn.Conv2d\<close> and \<^verbatim>\<open>nn.BatchNorm2d\<close>, and the repository's
  \<^verbatim>\<open>autopad\<close> (kindle.utils.torch_utils) and \<^verbatim>\<open>Activation\<close>
  (kindle.modules.activation), neither among the sources. They are parameters of the model.
  \<open>Conv2d_args\<close> is the argument list of one call of \<^verbatim>\<open>nn.Conv2d\<close>; the type \<open>'p\<close>
  is whatever \<^verbatim>\<open>autopad\<close> returns. \<open>Activation\<close> stands for
  \<^verbatim>\<open>Activation(name)()\<close>, the activation module built from a name or from None.
\<close>

record 'p Conv2d_args =
  in_channels :: int
  out_channels :: int
  kernel_size :: int
  stride :: int
  padding :: 'p
  groups :: int
  bias :: bool

record ('a, 'p) externals =
  nn_Conv2d :: "'p Conv2d_args \<Rightarrow> 'a module result"
  nn_BatchNorm2d :: "int \<Rightarrow> 'a module result"
  Activation :: "string option \<Rightarrow> 'a module result"
  autopad :: "int \<times> int \<Rightarrow> int option \<Rightarrow> 'p"

record 'a Conv =
  conv :: "'a module"
  batch_norm :: "'a module"
  activation :: "'a module"

text \<open>
  \<^verbatim>\<open>Conv.__init__\<close>. The three submodules are built in the order of the source; an
  exception of a constructor leaves \<^verbatim>\<open>__init__\<close>.
\<close>

definition Conv_init ::
  "('a, 'p) externals \<Rightarrow> int \<Rightarrow> int \<Rightarrow> int \<Rightarrow> int \<Rightarrow> int option \<Rightarrow> int \<Rightarrow> string option
     \<Rightarrow> 'a Conv result" where
  "Conv_init E in_ch out_ch k s p g act =
     and_then
       (nn_Conv2d E
          \<lparr>in_channels = in_ch, out_channels = out_ch, kernel_size = k, stride = s,
           padding = autopad E (k, k) p, groups = g, bias = False\<rparr>)
       (\<lambda>c. and_then (nn_BatchNorm2d E out_ch)
          (\<lambda>b. and_then (Activation E act)
             (\<lambda>a. Inr \<lparr>conv = c, batch_norm = b, activation = a\<rparr>)))"

definition Conv_forward :: "'a Conv \<Rightarrow> 'a module" where
  "Conv_forward self x = and_then (and_then (conv self x) (batch_norm self)) (activation self)"

definition Conv_fuseforward :: "'a Conv \<Rightarrow> 'a module" where
  "Conv_fuseforward self x = and_then (conv self x) (activation self)"

section \<open>Focus\<close>

text \<open>
  \<^verbatim>\<open>Focus\<close> is a subclass of \<^verbatim>\<open>Conv\<close> with no \<^verbatim>\<open>__init__\<close> of its own: a
  Focus module is a Conv module, built by \<open>Conv_init\<close>.
\<close>

definition Focus_reduce_focus :: "'a tensor \<Rightarrow> 'a tensor result" where
  "Focus_reduce_focus x = torch_cat_1 [slice2 0 0 x, slice2 1 0 x, slice2 0 1 x, slice2 1 1 x]"

definition Focus_forward :: "'a Conv \<Rightarrow> 'a module" where
  "Focus_forward self x = and_then (Focus_reduce_focus x) (Conv_forward self)"

definition Focus_fuseforward :: "'a Conv \<Rightarrow> 'a module" where
  "Focus_fuseforward self x = and_then (Focus_reduce_focus x) (Conv_fuseforward self)"

section \<open>Bias initialisation of the detection head\<close>

text \<open>
  Modelled from the spec: the state of the Detection Head that bias initialisation reads and
  writes. \<^verbatim>\<open>kindle/modules/yolo_head.py\<close> is not among the sources; the fields follow
  sections 3 and 4.3 of the specification: the number of classes, the anchors per scale,
  the Stride array, which is computed lazily by a calibration pass and is \<open>None\<close> until
  then, and, for the projection layer of every scale, its bias: one vector of
  \<open>5 + n_classes\<close> components per anchor, component 4 the objectness and components
  \<open>5 + c\<close> the classes.
\<close>

record YOLOHead =
  n_classes :: nat
  n_anchors :: nat
  strides :: "nat list option"
  proj_bias :: "real list list list"


text \<open>
  Modelled from the spec: the objectness bias of a scale,
  \<open>ln (expected_objects / (reference_image_size / stride)\<^sup>2)\<close>, which
  \<^verbatim>\<open>initialize_biases\<close> (not among the sources) sets.
\<close>

definition objectness_bias :: "real \<times> real \<Rightarrow> nat \<Rightarrow> real" where
  "objectness_bias n_object_per_image s =
     ln (fst n_object_per_image / (snd n_object_per_image / real s)\<^sup>2)"

text \<open>
  Modelled from the spec: the neutral default of the class biases. Section 4.3 asks for a
  neutral default when neither argument is given and section 9 names the uniform
  log-prior as the one to document: \<open>ln (1 / num_classes)\<close>, every class as likely as any
  other.
\<close>

definition neutral_class_bias :: "nat \<Rightarrow> real" where
  "neutral_class_bias nc = ln (1 / real nc)"

text \<open>
  Modelled from the spec: the class biases \<^verbatim>\<open>initialize_biases\<close> (not among the sources)
  sets, one per class. With \<^verbatim>\<open>class_probability\<close> given:
  \<open>ln (class_probability / (num_classes - 0.99))\<close> for every class; with
  \<^verbatim>\<open>class_frequency\<close> given instead: \<open>ln (frequency[c] / sum(frequency))\<close> for class
  \<open>c\<close>; with neither, the neutral default; with both, the StateError of section 7.
  \<^verbatim>\<open>class_frequency\<close> is a sequence of per-class counts: a sequence that does not hold
  one count per class is refused like the other calls with unfit arguments.
\<close>

definition class_biases :: "nat \<Rightarrow> real option \<Rightarrow> nat list option \<Rightarrow> real list result" where
  "class_biases nc class_probability class_frequency =
     (case (class_probability, class_frequency) of
        (Some p, Some f) \<Rightarrow> Inl StateError
      | (Some p, None) \<Rightarrow> Inr (replicate nc (ln (p / (real nc - 99 / 100))))
      | (None, Some f) \<Rightarrow>
          if length f = nc then Inr (map (\<lambda>c. ln (real c / real (sum_list f))) f)
          else Inl StateError
      | (None, None) \<Rightarrow> Inr (replicate nc (neutral_class_bias nc)))"

text \<open>
  Modelled from the spec: writing values into consecutive components of a bias vector, from
  component \<open>i\<close> on. The vector keeps its length; a component it does not have is not
  written.
\<close>

fun set_from :: "nat \<Rightarrow> real list \<Rightarrow> real list \<Rightarrow> real list" where
  "set_from i [] v = v"
| "set_from i (x # xs) v = set_from (Suc i) xs (v[i := x])"

text \<open>
  Modelled from the spec: setting the objectness component (component 4) and the class
  components (from component 5 on) of the bias vector of one anchor. The four box
  components before them are not touched.
\<close>

definition set_components :: "real \<Rightarrow> real list \<Rightarrow> real list \<Rightarrow> real list" where
  "set_components obj cls v = set_from 5 cls (v[4 := obj])"

text \<open>
  Modelled from the spec: \<^verbatim>\<open>initialize_biases(class_probability, class_frequency,
  n_object_per_image)\<close> of the Detection Head (not among the sources). The call needs the
  Stride array: on a head that is not calibrated (no Stride array, or not one stride per
  scale) it fails with the StateError of sections 7 and 9. Otherwise every anchor's bias
  vector of scale \<open>i\<close> gets the objectness bias for \<open>stride[i]\<close> and the class biases, and
  the head is returned updated.
\<close>

definition initialize_biases ::
  "YOLOHead \<Rightarrow> real option \<Rightarrow> nat list option \<Rightarrow> real \<times> real \<Rightarrow> YOLOHead result" where
  "initialize_biases self class_probability class_frequency n_object_per_image =
     (case strides self of
        None \<Rightarrow> Inl StateError
      | Some ss \<Rightarrow>
          if length ss = length (proj_bias self)
          then and_then (class_biases (n_classes self) class_probability class_frequency)
                 (\<lambda>cls. Inr (self\<lparr>proj_bias :=
                    map2 (\<lambda>s b. map (set_components (objectness_bias n_object_per_image s) cls) b)
                      ss (proj_bias self)\<rparr>))
          else Inl StateError)"

section \<open>The execution plan and the Fusion Utility\<close>

text \<open>
  Modelled from the spec: the differentiable transform a compiled layer holds. The model
  assembly and the Fusion Utility (\<^verbatim>\<open>YOLOModel\<close>, \<^verbatim>\<open>fuse\<close>) are not among the
  sources. The pattern the Fusion Utility looks for, a convolution immediately followed
  by its batch normalisation, is what a Conv module of \<^verbatim>\<open>conv.py\<close> is before fusion
  (\<open>Unfused\<close>: \<^verbatim>\<open>Conv.forward\<close> calls \<open>batch_norm\<close> on the result of \<open>conv\<close>); after
  fusion the module is a single convolution followed by the activation (\<open>Fused\<close>: run by
  \<^verbatim>\<open>Conv.fuseforward\<close>). A repeated block is a chain of transforms (section 4.1, step
  4); every other layer type is an opaque transform from its inputs to its outputs.
\<close>

datatype 'a transform =
    Unfused "'a Conv"
  | Fused "'a Conv"
  | Chain "'a transform list"
  | Opaque "'a tensor list \<Rightarrow> 'a tensor list result"

text \<open>
  Modelled from the spec: CompiledLayer of section 3 (the assembly that creates it is not
  among the sources), with its source indices resolved. An execution plan is the list of
  its compiled layers, in execution order.
\<close>

record 'a CompiledLayer =
  index :: nat
  source :: "nat list"
  layer_module :: "'a transform"
  output_channels :: nat
  is_kept_alive :: bool

text \<open>
  Modelled from the spec: a module of one input and one output as a transform; with
  another number of inputs the call fails (the Execution Engine is not among the sources).
\<close>

definition on_single :: "'a module \<Rightarrow> 'a tensor list \<Rightarrow> 'a tensor list result" where
  "on_single m ins =
     (case ins of [x] \<Rightarrow> and_then (m x) (\<lambda>y. Inr [y]) | _ \<Rightarrow> Inl ComputationError)"

text \<open>
  Modelled from the spec: invoking the transform of a layer (the Execution Engine is not
  among the sources). In a chain each copy's input is the previous copy's output.
\<close>

fun run_transform :: "'a transform \<Rightarrow> 'a tensor list \<Rightarrow> 'a tensor list result" where
  "run_transform (Unfused c) ins = on_single (Conv_forward c) ins"
| "run_transform (Fused c) ins = on_single (Conv_fuseforward c) ins"
| "run_transform (Chain ts) ins = fold (\<lambda>t r. and_then r (run_transform t)) ts (Inr ins)"
| "run_transform (Opaque f) ins = f ins"

text \<open>
  Modelled from the spec: gathering the inputs of a layer from the cache by its source
  indices, in their order (section 4.2; the Execution Engine is not among the sources). An
  index with no cached output makes the forward pass fail.
\<close>

definition gather :: "(nat \<rightharpoonup> 'a tensor list) \<Rightarrow> nat list \<Rightarrow> 'a tensor list result" where
  "gather cache src =
     (case those (map cache src) of
        None \<Rightarrow> Inl ComputationError
      | Some outs \<Rightarrow> Inr (concat outs))"

text \<open>
  Modelled from the spec: the Execution Engine of section 4.2 (not among the sources), in
  the simple strategy the section allows: every output stays in the cache until the plan
  ends. Each layer, in plan order, gathers its inputs, invokes its transform and stores the
  result under its index; a transform that fails ends the pass with a ComputationError.
\<close>

fun execute :: "'a CompiledLayer list \<Rightarrow> (nat \<rightharpoonup> 'a tensor list)
    \<Rightarrow> (nat \<rightharpoonup> 'a tensor list) result" where
  "execute [] cache = Inr cache"
| "execute (l # ls) cache =
     and_then (gather cache (source l))
       (\<lambda>ins. case run_transform (layer_module l) ins of
                 Inl e \<Rightarrow> Inl ComputationError
               | Inr out \<Rightarrow> execute ls (cache(index l \<mapsto> out)))"

text \<open>
  Modelled from the spec: one forward pass (section 4.2; the Execution Engine is not among
  the sources): the cache starts with the input tensor at index 0. The result is the cache
  after the last layer, which holds the output of every layer; the outputs the engine
  hands to its caller are entries of it.
\<close>

definition forward_pass ::
  "'a CompiledLayer list \<Rightarrow> 'a tensor \<Rightarrow> (nat \<rightharpoonup> 'a tensor list) result" where
  "forward_pass plan x = execute plan [0 \<mapsto> [x]]"

text \<open>
  Modelled from the spec: whether a transform still holds the pattern of section 4.4, a
  convolution immediately followed by its batch normalisation (the Fusion Utility is not
  among the sources).
\<close>

fun matches_pattern :: "'a transform \<Rightarrow> bool" where
  "matches_pattern (Unfused c) = True"
| "matches_pattern (Fused c) = False"
| "matches_pattern (Chain ts) = list_ex matches_pattern ts"
| "matches_pattern (Opaque f) = False"

text \<open>
  Modelled from the spec: the Fusion Utility on one transform (section 4.4; not among the
  sources). Every convolution with its normalisation is replaced by a single convolution,
  run without a normalisation step. The folded convolution has the weight
  \<open>conv_weight \<times> (bn_scale / sqrt (bn_running_var + eps))\<close> and the bias
  \<open>bn_bias - bn_running_mean \<times> bn_scale / sqrt (bn_running_var + eps)\<close>; torch's layers
  are opaque in the model of \<^verbatim>\<open>conv.py\<close>, so the folding is the parameter \<open>fold_bn\<close>,
  from the convolution and the normalisation to the folded convolution. The normalisation
  a fused module still carries is never called.
\<close>

fun fuse_transform ::
  "('a module \<Rightarrow> 'a module \<Rightarrow> 'a module) \<Rightarrow> 'a transform \<Rightarrow> 'a transform" where
  "fuse_transform fold_bn (Unfused c) = Fused (c\<lparr>conv := fold_bn (conv c) (batch_norm c)\<rparr>)"
| "fuse_transform fold_bn (Fused c) = Fused c"
| "fuse_transform fold_bn (Chain ts) = Chain (map (fuse_transform fold_bn) ts)"
| "fuse_transform fold_bn (Opaque f) = Opaque f"

text \<open>
  Modelled from the spec: the Fusion Utility (section 4.4; not among the sources): one
  traversal of the plan that rewrites the module of every compiled layer and keeps its
  index, its sources and its output channels.
\<close>

definition fuse ::
  "('a module \<Rightarrow> 'a module \<Rightarrow> 'a module) \<Rightarrow> 'a CompiledLayer list \<Rightarrow> 'a CompiledLayer list" where
  "fuse fold_bn plan =
     map (\<lambda>l. l\<lparr>layer_module := fuse_transform fold_bn (layer_module l)\<rparr>) plan"

section \<open>Example inputs\<close>

text \<open>
  A 1 x 1 x 2 x 2 image whose element at row \<open>i\<close>, column \<open>j\<close> is \<open>2 i + j\<close>, and a
  1 x 1 x 3 x 2 image, whose height is odd.
\<close>

definition image_2x2 :: "int tensor" where
  "image_2x2 = \<lparr>batch = 1, chans = 1, height = 2, width = 2,
                 elem = (\<lambda>b k i j. int (2 * i + j))\<rparr>"

definition image_3x2 :: "int tensor" where
  "image_3x2 = \<lparr>batch = 1, chans = 1, height = 3, width = 2,
                 elem = (\<lambda>b k i j. int (2 * i + j))\<rparr>"

text \<open>
  Stand-ins for the external constructors, on integer tensors: a convolution that doubles
  every element (and, like torch, has no additive term when built without bias), a
  normalisation that adds one, an activation that cuts off below zero, and the padding of
  half the kernel size.
\<close>

definition pointwise :: "('a \<Rightarrow> 'a) \<Rightarrow> 'a module" where
  "pointwise f x = Inr (x\<lparr>elem := (\<lambda>b k i j. f (elem x b k i j))\<rparr>)"

definition toy_externals :: "(int, int list) externals" where
  "toy_externals =
     \<lparr>nn_Conv2d = (\<lambda>a. if groups a \<le> 0 then Inl ValueError
                        else Inr (pointwise (\<lambda>v. 2 * v + (if bias a then 5 else 0)))),
      nn_BatchNorm2d = (\<lambda>n. Inr (pointwise (\<lambda>v. v + 1))),
      Activation = (\<lambda>name. Inr (pointwise (max 0))),
      autopad = (\<lambda>(kh, kw) p. case p of None \<Rightarrow> [kh div 2, kw div 2] | Some v \<Rightarrow> [v])\<rparr>"

definition toy_conv :: "int Conv" where
  "toy_conv = \<lparr>conv = pointwise (\<lambda>v. 2 * v), batch_norm = pointwise (\<lambda>v. v + 1),
               activation = pointwise (max 0)\<rparr>"

text \<open>
  A calibrated head of one scale of stride 8, one anchor and two classes, and the same
  head before calibration.
\<close>

definition small_head :: YOLOHead where
  "small_head = \<lparr>n_classes = 2, n_anchors = 1, strides = Some [8],
                  proj_bias = [[[1, 2, 3, 4, 0, 0, 0]]]\<rparr>"

definition uncalibrated_head :: YOLOHead where
  "uncalibrated_head = small_head\<lparr>strides := None\<rparr>"

text \<open>
  A plan of two layers: a Conv module on the input, and a block of two Conv modules on its
  output. The stand-in for the folding runs the normalisation inside the folded
  convolution.
\<close>

definition toy_fold :: "int module \<Rightarrow> int module \<Rightarrow> int module" where
  "toy_fold cv bn x = and_then (cv x) bn"

definition toy_plan :: "int CompiledLayer list" where
  "toy_plan =
     [\<lparr>index = 1, source = [0], layer_module = Unfused toy_conv,
       output_channels = 1, is_kept_alive = False\<rparr>,
      \<lparr>index = 2, source = [1], layer_module = Chain [Unfused toy_conv, Unfused toy_conv],
       output_channels = 1, is_kept_alive = False\<rparr>]"

section \<open>Sequencing and slicing\<close>

lemma and_then_Inl [simp]: "and_then (Inl e) f = Inl e"
  by (simp add: and_then_def)

lemma and_then_Inr [simp]: "and_then (Inr v) f = f v"
  by (simp add: and_then_def)

lemma and_then_return [simp]: "and_then r Inr = r"
  by (cases r) simp_all

lemma slice_len_even: "even n \<Longrightarrow> r \<le> 1 \<Longrightarrow> slice_len r n = n div 2"
  by (cases "r = 0") (auto simp: slice_len_def elim!: evenE)

lemma slice_len_odd: "odd n \<Longrightarrow> slice_len 0 n = Suc (slice_len 1 n)"
  by (auto simp: slice_len_def elim!: oddE)

lemma shape_slice2:
  "shape (slice2 r c x) = (batch x, chans x, slice_len r (height x), slice_len c (width x))"
  by (simp add: shape_def slice2_def)

lemma elem_slice2: "elem (slice2 r c x) b k i j = elem x b k (r + 2 * i) (c + 2 * j)"
  by (simp add: slice2_def)

text \<open>Where the channels of four tensors of \<open>n\<close> channels each end up in their concatenation.\<close>

lemma cat_at_four:
  assumes "chans t0 = n" "chans t1 = n" "chans t2 = n" "k < n"
  shows "cat_at t0 [t1, t2, t3] b k i j = elem t0 b k i j"
    and "cat_at t0 [t1, t2, t3] b (n + k) i j = elem t1 b k i j"
    and "cat_at t0 [t1, t2, t3] b (2 * n + k) i j = elem t2 b k i j"
    and "cat_at t0 [t1, t2, t3] b (3 * n + k) i j = elem t3 b k i j"
  using assms by simp_all

section \<open>Focus: the reduction of the image\<close>

text \<open>
  When the height and the width are even, the four slices have the same sizes and
  \<^verbatim>\<open>torch.cat\<close> accepts them.
\<close>

lemma Focus_reduce_focus_even:
  assumes "even (height x)" and "even (width x)"
  shows "Focus_reduce_focus x =
           Inr \<lparr>batch = batch x, chans = 4 * chans x,
                height = height x div 2, width = width x div 2,
                elem = cat_at (slice2 0 0 x) [slice2 1 0 x, slice2 0 1 x, slice2 1 1 x]\<rparr>"
  using assms
  by (simp add: Focus_reduce_focus_def torch_cat_1_def slice2_def slice_len_even)

text \<open>
  When the height or the width is odd, the slices from index 0 are one longer than the
  slices from index 1, \<^verbatim>\<open>torch.cat\<close> raises, and so do both forward passes.
\<close>

lemma Focus_reduce_focus_odd:
  assumes "odd (height x) \<or> odd (width x)"
  shows "Focus_reduce_focus x = Inl RuntimeError"
  using assms
  by (auto simp: Focus_reduce_focus_def torch_cat_1_def slice2_def dest: slice_len_odd)

lemma Focus_forward_odd:
  assumes "odd (height x) \<or> odd (width x)"
  shows "Focus_forward self x = Inl RuntimeError"
    and "Focus_fuseforward self x = Inl RuntimeError"
  using Focus_reduce_focus_odd [OF assms]
  by (simp_all add: Focus_forward_def Focus_fuseforward_def)

lemma Focus_reduce_focus_image_3x2: "Focus_reduce_focus image_3x2 = Inl RuntimeError"
  by (rule Focus_reduce_focus_odd) (simp add: image_3x2_def)

text \<open>
  Claim C9. For every input tensor \<open>x\<close> of shape (batch, C, H, W) with H and W both even,
  \<^verbatim>\<open>Focus.forward(x)\<close> is \<^verbatim>\<open>Conv.forward\<close> applied to the concatenation, along the
  channel dimension, of the four parity slices \<^verbatim>\<open>x[..., ::2, ::2]\<close>,
  \<^verbatim>\<open>x[..., 1::2, ::2]\<close>, \<^verbatim>\<open>x[..., ::2, 1::2]\<close> and \<^verbatim>\<open>x[..., 1::2, 1::2]\<close>. That
  tensor \<open>y\<close> has shape (batch, 4 C, H/2, W/2): its channels \<open>k\<close>, \<open>C + k\<close>, \<open>2 C + k\<close> and
  \<open>3 C + k\<close> hold, at row \<open>i\<close> and column \<open>j\<close>, the elements of channel \<open>k\<close> of \<open>x\<close> at
  (2 i, 2 j), (2 i + 1, 2 j), (2 i, 2 j + 1) and (2 i + 1, 2 j + 1).
  \<^verbatim>\<open>Focus.fuseforward\<close> applies \<^verbatim>\<open>Conv.fuseforward\<close> to the same \<open>y\<close>.
\<close>

theorem Focus_forward_parity_slices:
  assumes "even (height x)" and "even (width x)"
  shows "\<exists>y. torch_cat_1 [slice2 0 0 x, slice2 1 0 x, slice2 0 1 x, slice2 1 1 x] = Inr y
     \<and> shape y = (batch x, 4 * chans x, height x div 2, width x div 2)
     \<and> (\<forall>b k i j. k < chans x \<longrightarrow>
            elem y b k i j = elem x b k (2 * i) (2 * j)
          \<and> elem y b (chans x + k) i j = elem x b k (2 * i + 1) (2 * j)
          \<and> elem y b (2 * chans x + k) i j = elem x b k (2 * i) (2 * j + 1)
          \<and> elem y b (3 * chans x + k) i j = elem x b k (2 * i + 1) (2 * j + 1))
     \<and> Focus_forward self x = Conv_forward self y
     \<and> Focus_fuseforward self x = Conv_fuseforward self y"
proof -
  define y where
    "y = \<lparr>batch = batch x, chans = 4 * chans x,
          height = height x div 2, width = width x div 2,
          elem = cat_at (slice2 0 0 x) [slice2 1 0 x, slice2 0 1 x, slice2 1 1 x]\<rparr>"
  have red: "Focus_reduce_focus x = Inr y"
    unfolding y_def by (rule Focus_reduce_focus_even [OF assms])
  then have cat: "torch_cat_1 [slice2 0 0 x, slice2 1 0 x, slice2 0 1 x, slice2 1 1 x] = Inr y"
    by (simp add: Focus_reduce_focus_def)
  have sh: "shape y = (batch x, 4 * chans x, height x div 2, width x div 2)"
    by (simp add: y_def shape_def)
  have el: "elem y b k i j = elem x b k (2 * i) (2 * j)
          \<and> elem y b (chans x + k) i j = elem x b k (2 * i + 1) (2 * j)
          \<and> elem y b (2 * chans x + k) i j = elem x b k (2 * i) (2 * j + 1)
          \<and> elem y b (3 * chans x + k) i j = elem x b k (2 * i + 1) (2 * j + 1)"
    if "k < chans x" for b k i j
  proof -
    have c: "chans (slice2 r c x) = chans x" for r c
      by (simp add: slice2_def)
    show ?thesis
      using cat_at_four [OF c c c that, of 0 0 1 0 0 1 "slice2 1 1 x" b i j]
      by (simp add: y_def elem_slice2)
  qed
  have fw: "Focus_forward self x = Conv_forward self y"
    by (simp add: Focus_forward_def red)
  have ff: "Focus_fuseforward self x = Conv_fuseforward self y"
    by (simp add: Focus_fuseforward_def red)
  from cat sh el fw ff show ?thesis by blast
qed

theorem Focus_forward_parity_slices_witness:
  "even (height image_2x2) \<and> even (width image_2x2)
   \<and> (\<exists>y. torch_cat_1 [slice2 0 0 image_2x2, slice2 1 0 image_2x2,
                        slice2 0 1 image_2x2, slice2 1 1 image_2x2] = Inr y
        \<and> shape y = (1, 4, 1, 1)
        \<and> [elem y 0 0 0 0, elem y 0 1 0 0, elem y 0 2 0 0, elem y 0 3 0 0] = [0, 2, 1, 3]
        \<and> Focus_forward toy_conv image_2x2 = Conv_forward toy_conv y
        \<and> Focus_fuseforward toy_conv image_2x2 = Conv_fuseforward toy_conv y)"
proof -
  have e: "even (height image_2x2)" "even (width image_2x2)"
    by (simp_all add: image_2x2_def)
  from Focus_forward_parity_slices [OF e, of toy_conv] obtain y where
    cat: "torch_cat_1 [slice2 0 0 image_2x2, slice2 1 0 image_2x2,
                       slice2 0 1 image_2x2, slice2 1 1 image_2x2] = Inr y"
    and sh: "shape y = (batch image_2x2, 4 * chans image_2x2,
                        height image_2x2 div 2, width image_2x2 div 2)"
    and el: "\<forall>b k i j. k < chans image_2x2 \<longrightarrow>
            elem y b k i j = elem image_2x2 b k (2 * i) (2 * j)
          \<and> elem y b (chans image_2x2 + k) i j = elem image_2x2 b k (2 * i + 1) (2 * j)
          \<and> elem y b (2 * chans image_2x2 + k) i j = elem image_2x2 b k (2 * i) (2 * j + 1)
          \<and> elem y b (3 * chans image_2x2 + k) i j
              = elem image_2x2 b k (2 * i + 1) (2 * j + 1)"
    and fw: "Focus_forward toy_conv image_2x2 = Conv_forward toy_conv y"
    and ff: "Focus_fuseforward toy_conv image_2x2 = Conv_fuseforward toy_conv y"
    by blast
  have "(0::nat) < chans image_2x2"
    by (simp add: image_2x2_def)
  with el have "elem y 0 0 0 0 = elem image_2x2 0 0 (2 * 0) (2 * 0)
          \<and> elem y 0 (chans image_2x2 + 0) 0 0 = elem image_2x2 0 0 (2 * 0 + 1) (2 * 0)
          \<and> elem y 0 (2 * chans image_2x2 + 0) 0 0 = elem image_2x2 0 0 (2 * 0) (2 * 0 + 1)
          \<and> elem y 0 (3 * chans image_2x2 + 0) 0 0 = elem image_2x2 0 0 (2 * 0 + 1) (2 * 0 + 1)"
    by blast
  then have "[elem y 0 0 0 0, elem y 0 1 0 0, elem y 0 2 0 0, elem y 0 3 0 0] = [0, 2, 1, 3]"
    by (simp add: image_2x2_def)
  moreover from sh have "shape y = (1, 4, 1, 1)"
    by (simp add: image_2x2_def)
  ultimately show ?thesis
    using e cat fw ff by blast
qed

section \<open>Conv: construction and the two forward passes\<close>

text \<open>
  A Conv module that \<^verbatim>\<open>__init__\<close> built holds exactly what the three constructors
  returned for the arguments of the source.
\<close>

lemma Conv_init_submodules:
  assumes "Conv_init E in_ch out_ch k s p g act = Inr self"
  shows "nn_Conv2d E
           \<lparr>in_channels = in_ch, out_channels = out_ch, kernel_size = k, stride = s,
            padding = autopad E (k, k) p, groups = g, bias = False\<rparr> = Inr (conv self)"
    and "nn_BatchNorm2d E out_ch = Inr (batch_norm self)"
    and "Activation E act = Inr (activation self)"
  using assms
  by (auto simp: Conv_init_def and_then_def split: sum.splits)

text \<open>The fused pass never calls the normalisation: it is the same for any \<open>batch_norm\<close>.\<close>

lemma Conv_fuseforward_batch_norm_unused:
  "Conv_fuseforward (self\<lparr>batch_norm := b\<rparr>) x = Conv_fuseforward self x"
  by (simp add: Conv_fuseforward_def)

text \<open>An exception of the convolution leaves both passes.\<close>

lemma Conv_forward_conv_raises:
  assumes "conv self x = Inl e"
  shows "Conv_forward self x = Inl e" and "Conv_fuseforward self x = Inl e"
  using assms by (simp_all add: Conv_forward_def Conv_fuseforward_def)

lemma Conv_init_toy:
  "Conv_init toy_externals 3 8 3 1 None 1 (Some ''ReLU'') = Inr toy_conv"
  by (simp add: Conv_init_def toy_externals_def toy_conv_def)

text \<open>
  Claim C10. Every Conv module constructs its internal convolution with bias disabled: the
  \<open>conv\<close> of a module that \<^verbatim>\<open>__init__\<close> returns is what \<^verbatim>\<open>nn.Conv2d\<close> built for the
  arguments of the call with \<^verbatim>\<open>bias=False\<close>. For every module and every input \<open>x\<close>,
  \<^verbatim>\<open>Conv.forward(x)\<close> is \<^verbatim>\<open>activation(batch_norm(conv(x)))\<close> and
  \<^verbatim>\<open>Conv.fuseforward(x)\<close> is \<^verbatim>\<open>activation(conv(x))\<close>; the fused pass is the normal pass
  of the module whose normalisation step is removed (replaced by the identity).
\<close>

theorem Conv_bias_free_forward_fuseforward:
  "(\<forall>built. Conv_init E in_ch out_ch k s p g act = Inr built \<longrightarrow>
       nn_Conv2d E
         \<lparr>in_channels = in_ch, out_channels = out_ch, kernel_size = k, stride = s,
          padding = autopad E (k, k) p, groups = g, bias = False\<rparr> = Inr (conv built))
   \<and> Conv_forward self x = and_then (and_then (conv self x) (batch_norm self)) (activation self)
   \<and> Conv_fuseforward self x = and_then (conv self x) (activation self)
   \<and> Conv_fuseforward self x = Conv_forward (self\<lparr>batch_norm := Inr\<rparr>) x"
proof -
  have built: "\<forall>built. Conv_init E in_ch out_ch k s p g act = Inr built \<longrightarrow>
       nn_Conv2d E
         \<lparr>in_channels = in_ch, out_channels = out_ch, kernel_size = k, stride = s,
          padding = autopad E (k, k) p, groups = g, bias = False\<rparr> = Inr (conv built)"
    using Conv_init_submodules(1) by blast
  have fw: "Conv_forward self x
              = and_then (and_then (conv self x) (batch_norm self)) (activation self)"
    by (simp add: Conv_forward_def)
  have ff: "Conv_fuseforward self x = and_then (conv self x) (activation self)"
    by (simp add: Conv_fuseforward_def)
  have "Conv_forward (self\<lparr>batch_norm := Inr\<rparr>) x
          = and_then (and_then (conv self x) Inr) (activation self)"
    by (simp add: Conv_forward_def)
  also have "\<dots> = and_then (conv self x) (activation self)"
    by simp
  finally have rm: "Conv_fuseforward self x = Conv_forward (self\<lparr>batch_norm := Inr\<rparr>) x"
    using ff by simp
  from built fw ff rm show ?thesis by blast
qed

theorem Conv_bias_free_forward_fuseforward_witness:
  "Conv_init toy_externals 3 8 3 1 None 1 (Some ''ReLU'') = Inr toy_conv
   \<and> nn_Conv2d toy_externals
       \<lparr>in_channels = 3, out_channels = 8, kernel_size = 3, stride = 1,
        padding = autopad toy_externals (3, 3) None, groups = 1, bias = False\<rparr>
       = Inr (conv toy_conv)
   \<and> Conv_forward toy_conv image_2x2
       = and_then (and_then (conv toy_conv image_2x2) (batch_norm toy_conv)) (activation toy_conv)
   \<and> Conv_fuseforward toy_conv image_2x2
       = and_then (conv toy_conv image_2x2) (activation toy_conv)
   \<and> Conv_fuseforward toy_conv image_2x2
       = Conv_forward (toy_conv\<lparr>batch_norm := Inr\<rparr>) image_2x2"
  using Conv_bias_free_forward_fuseforward
          [of toy_externals 3 8 3 1 None 1 "Some ''ReLU''" toy_conv image_2x2]
        Conv_init_toy
  by blast

section \<open>Bias initialisation: which calls are accepted\<close>

lemma length_set_from [simp]: "length (set_from i xs v) = length v"
  by (induction i xs v rule: set_from.induct) simp_all


lemma length_set_components [simp]: "length (set_components obj cls v) = length v"
  by (simp add: set_components_def)


text \<open>Before calibration every call fails, whatever its arguments (sections 7 and 9).\<close>

lemma initialize_biases_uncalibrated:
  assumes "strides self = None"
  shows "initialize_biases self class_probability class_frequency n = Inl StateError"
  using assms by (simp add: initialize_biases_def)

lemma initialize_biases_uncalibrated_head:
  "initialize_biases uncalibrated_head None None (8, 640) = Inl StateError"
  by (rule initialize_biases_uncalibrated) (simp add: uncalibrated_head_def)







section \<open>The Fusion Utility: fusing twice\<close>

text \<open>After fusion no transform holds the pattern any more.\<close>

lemma fuse_transform_no_pattern: "\<not> matches_pattern (fuse_transform fold_bn t)"
  by (induction t) (auto simp: list_ex_iff)

text \<open>A transform without the pattern is left as it is.\<close>

lemma fuse_transform_fixed:
  assumes "\<not> matches_pattern t"
  shows "fuse_transform fold_bn t = t"
  using assms by (induction t) (auto simp: list_ex_iff map_idI)

lemma fuse_transform_idem:
  "fuse_transform fold_bn (fuse_transform fold_bn t) = fuse_transform fold_bn t"
  by (rule fuse_transform_fixed) (rule fuse_transform_no_pattern)

text \<open>A module that holds the pattern is replaced: the first fusion does change the plan.\<close>

lemma fuse_transform_Unfused: "fuse_transform fold_bn (Unfused c) \<noteq> Unfused c"
  by simp

text \<open>Fusion keeps the index, the sources and the output channels of every layer.\<close>

lemma fuse_preserves:
  "map index (fuse fold_bn plan) = map index plan"
  "map source (fuse fold_bn plan) = map source plan"
  "map output_channels (fuse fold_bn plan) = map output_channels plan"
  "map is_kept_alive (fuse fold_bn plan) = map is_kept_alive plan"
  by (simp_all add: fuse_def)

text \<open>
  Claim C4. The Fusion Utility is idempotent: for every assembled graph, applying fusion
  twice yields the graph that applying it once yields, so every output of a forward pass
  is identical (and within every tolerance), because after the first fusion no layer
  matches the pattern of a convolution followed by its batch normalisation.
\<close>

theorem fuse_idempotent:
  "fuse fold_bn (fuse fold_bn plan) = fuse fold_bn plan
   \<and> \<not> list_ex (\<lambda>l. matches_pattern (layer_module l)) (fuse fold_bn plan)
   \<and> forward_pass (fuse fold_bn (fuse fold_bn plan)) x = forward_pass (fuse fold_bn plan) x"
proof -
  have idem: "fuse fold_bn (fuse fold_bn plan) = fuse fold_bn plan"
    by (simp add: fuse_def fuse_transform_idem)
  have none: "\<not> list_ex (\<lambda>l. matches_pattern (layer_module l)) (fuse fold_bn plan)"
    by (simp add: fuse_def list_ex_iff fuse_transform_no_pattern)
  from idem have "forward_pass (fuse fold_bn (fuse fold_bn plan)) x
                    = forward_pass (fuse fold_bn plan) x"
    by simp
  with idem none show ?thesis by blast
qed

theorem fuse_idempotent_witness:
  "fuse toy_fold toy_plan \<noteq> toy_plan
   \<and> fuse toy_fold (fuse toy_fold toy_plan) = fuse toy_fold toy_plan
   \<and> \<not> list_ex (\<lambda>l. matches_pattern (layer_module l)) (fuse toy_fold toy_plan)
   \<and> forward_pass (fuse toy_fold (fuse toy_fold toy_plan)) image_2x2
       = forward_pass (fuse toy_fold toy_plan) image_2x2"
proof -
  have "fuse toy_fold toy_plan \<noteq> toy_plan"
    by (simp add: fuse_def toy_plan_def)
  with fuse_idempotent [of toy_fold toy_plan image_2x2] show ?thesis
    by blast
qed

end
